theory Spec2Isabelle
  imports Main
begin

unbundle bit_operations_syntax

section \<open>The Snowflake identifier generator of \<^verbatim>\<open>utils/generator_util.py\<close>\<close>

text \<open>
  Python integers are unbounded, so every integer of the source is an \<^typ>\<open>int\<close>; the
  bitwise operators of Python on negative integers are those of two's complement of
  unbounded width, which is what \<open>AND\<close>, \<open>OR\<close>, \<open>XOR\<close>, \<^const>\<open>push_bit\<close> and
  \<^const>\<open>drop_bit\<close> are on \<^typ>\<open>int\<close>.  The bit counts and shift amounts are class constants
  of the source that are never negative; they are natural numbers here.
\<close>

subsection \<open>Class constants\<close>

definition EPOCH_TIMESTAMP :: int where
  "EPOCH_TIMESTAMP = 1288834974657"

definition DATACENTER_ID_BITS :: nat where
  "DATACENTER_ID_BITS = 5"

definition WORKER_ID_BITS :: nat where
  "WORKER_ID_BITS = 5"

definition SEQUENCE_BITS :: nat where
  "SEQUENCE_BITS = 12"

text \<open>\<^verbatim>\<open>return -1 ^ (-1 << bits)\<close>: in Python the shift binds tighter than the xor.\<close>

definition calculate_max_value :: "nat \<Rightarrow> int" where
  "calculate_max_value bits = (- 1) XOR (push_bit bits (- 1))"

subsection \<open>The instance and its construction\<close>

text \<open>
  The attributes that \<^verbatim>\<open>__init__\<close> sets, without the lock: the calls on one instance
  are serialised by it, and the model is the sequential run in the order in which the
  lock is taken.
\<close>

record generator =
  datacenter_id :: int
  worker_id :: int
  sequence_number :: int
  last_timestamp :: int
  max_datacenter_id :: int
  max_worker_id :: int
  max_sequence :: int
  worker_id_shift :: nat
  datacenter_id_shift :: nat
  timestamp_shift :: nat

text \<open>
  Every error of the module is a Python \<^verbatim>\<open>ValueError\<close>; the constructors tell the three
  \<^verbatim>\<open>raise\<close> statements apart.
\<close>

datatype error =
    DatacenterIdOutOfRange
  | WorkerIdOutOfRange
  | ClockMovedBackwards

definition validate_ids :: "int \<Rightarrow> int \<Rightarrow> error option" where
  "validate_ids dc_id wk_id =
     (let max_datacenter = calculate_max_value DATACENTER_ID_BITS;
          max_worker = calculate_max_value WORKER_ID_BITS
      in if \<not> (0 \<le> dc_id \<and> dc_id \<le> max_datacenter) then Some DatacenterIdOutOfRange
         else if \<not> (0 \<le> wk_id \<and> wk_id \<le> max_worker) then Some WorkerIdOutOfRange
         else None)"

definition SnowflakeIdGenerator :: "int \<Rightarrow> int \<Rightarrow> error + generator" where
  "SnowflakeIdGenerator dc_id wk_id =
     (case validate_ids dc_id wk_id of
        Some e \<Rightarrow> Inl e
      | None \<Rightarrow> Inr \<lparr>
          datacenter_id = dc_id,
          worker_id = wk_id,
          sequence_number = 0,
          last_timestamp = - 1,
          max_datacenter_id = calculate_max_value DATACENTER_ID_BITS,
          max_worker_id = calculate_max_value WORKER_ID_BITS,
          max_sequence = calculate_max_value SEQUENCE_BITS,
          worker_id_shift = SEQUENCE_BITS,
          datacenter_id_shift = SEQUENCE_BITS + WORKER_ID_BITS,
          timestamp_shift = SEQUENCE_BITS + WORKER_ID_BITS + DATACENTER_ID_BITS \<rparr>)"

subsection \<open>The clock\<close>

text \<open>
  \<^verbatim>\<open>_get_current_timestamp_millis\<close> reads the wall clock.  The clock is a parameter: the
  function \<open>clk\<close> gives the value of the \<open>p\<close>-th reading taken, and the number of readings
  taken so far is threaded through the calls.  Nothing is assumed about \<open>clk\<close>, so the
  clock may stand still or step back.
\<close>

type_synonym clock = "nat \<Rightarrow> int"

definition get_current_timestamp_millis :: "clock \<Rightarrow> nat \<Rightarrow> int \<times> nat" where
  "get_current_timestamp_millis clk p = (clk p, Suc p)"

text \<open>
  The \<^verbatim>\<open>while\<close> loop of \<^verbatim>\<open>_wait_for_next_millisecond\<close>.  It runs for as long as the clock
  does not pass \<open>last_seen\<close>, possibly forever: not returning is the value \<^const>\<open>None\<close>.
\<close>

partial_function (option) wait_loop :: "clock \<Rightarrow> int \<Rightarrow> int \<Rightarrow> nat \<Rightarrow> (int \<times> nat) option" where
  "wait_loop clk last_seen current_timestamp p =
     (if current_timestamp \<le> last_seen
      then (case get_current_timestamp_millis clk p of (t, p') \<Rightarrow> wait_loop clk last_seen t p')
      else Some (current_timestamp, p))"

declare wait_loop.simps [code]

definition wait_for_next_millisecond :: "clock \<Rightarrow> nat \<Rightarrow> int \<Rightarrow> (int \<times> nat) option" where
  "wait_for_next_millisecond clk p last_seen =
     (case get_current_timestamp_millis clk p of (t, p') \<Rightarrow> wait_loop clk last_seen t p')"

subsection \<open>Building and generating identifiers\<close>

text \<open>Python's \<^verbatim>\<open>|\<close> associates to the left; the parentheses keep its order.\<close>

definition build_snowflake_id :: "generator \<Rightarrow> int \<Rightarrow> int" where
  "build_snowflake_id g timestamp =
     ((push_bit (timestamp_shift g) (timestamp - EPOCH_TIMESTAMP)
         OR push_bit (datacenter_id_shift g) (datacenter_id g))
        OR push_bit (worker_id_shift g) (worker_id g))
       OR sequence_number g"

text \<open>
  The last two statements of \<^verbatim>\<open>generate_id\<close>, which all its successful paths share:
  store the timestamp, build the identifier.
\<close>

definition emit :: "generator \<Rightarrow> int \<Rightarrow> nat \<Rightarrow> ((error + int) \<times> generator \<times> nat) option" where
  "emit g current_timestamp p =
     (let g' = g\<lparr>last_timestamp := current_timestamp\<rparr>
      in Some (Inr (build_snowflake_id g' current_timestamp), g', p))"

text \<open>
  A call returns the identifier or the error, the instance after the call and the number
  of clock readings taken; \<^const>\<open>None\<close> when the call never returns.  The raise comes
  before every assignment, so the instance it returns is the one it was given.
\<close>

definition generate_id :: "clock \<Rightarrow> nat \<Rightarrow> generator \<Rightarrow> ((error + int) \<times> generator \<times> nat) option" where
  "generate_id clk p g =
     (case get_current_timestamp_millis clk p of (current_timestamp, p1) \<Rightarrow>
        if current_timestamp < last_timestamp g then Some (Inl ClockMovedBackwards, g, p1)
        else if current_timestamp = last_timestamp g then
          (let g1 = g\<lparr>sequence_number := (sequence_number g + 1) AND max_sequence g\<rparr>
           in if sequence_number g1 = 0
              then (case wait_for_next_millisecond clk p1 (last_timestamp g1) of
                      None \<Rightarrow> None
                    | Some (t, p2) \<Rightarrow> emit g1 t p2)
              else emit g1 current_timestamp p1)
        else emit (g\<lparr>sequence_number := 0\<rparr>) current_timestamp p1)"

text \<open>
  A caller that calls \<^verbatim>\<open>generate_id\<close> \<open>n\<close> times on one instance, catching the errors:
  the results in the order of the calls.
\<close>

fun generate_ids :: "clock \<Rightarrow> nat \<Rightarrow> generator \<Rightarrow> nat \<Rightarrow> ((error + int) list \<times> generator \<times> nat) option" where
  "generate_ids clk p g 0 = Some ([], g, p)"
| "generate_ids clk p g (Suc n) =
     (case generate_id clk p g of
        None \<Rightarrow> None
      | Some (r, g', p') \<Rightarrow>
          (case generate_ids clk p' g' n of
             None \<Rightarrow> None
           | Some (rs, g'', p'') \<Rightarrow> Some (r # rs, g'', p'')))"

text \<open>The identifiers among the results of a series of calls.\<close>

fun returned_ids :: "(error + int) list \<Rightarrow> int list" where
  "returned_ids [] = []"
| "returned_ids (Inl e # rs) = returned_ids rs"
| "returned_ids (Inr i # rs) = i # returned_ids rs"

subsection \<open>The module-level functions\<close>

text \<open>
  The module holds a global variable that refers to an instance, and two of its functions
  create instances.  Which instance a function returns matters, so the instances live in
  a store: an instance is referred to by its index in \<open>heap\<close>, a new one is appended, and
  \<open>global_generator\<close> is the variable \<^verbatim>\<open>_global_generator\<close>, \<^const>\<open>None\<close> at import.  The
  field \<open>ticks\<close> counts the clock readings taken by the process.
\<close>

record process =
  heap :: "generator list"
  global_generator :: "nat option"
  ticks :: nat

definition initial_process :: process where
  "initial_process = \<lparr>heap = [], global_generator = None, ticks = 0\<rparr>"

text \<open>
  \<^verbatim>\<open>get_global_id_generator\<close>.  The test of the variable is made twice in the source,
  outside and inside the creation lock; run by one thread the two tests agree.  When the
  constructor raises, the variable has not been assigned.
\<close>

definition get_global_id_generator :: "int \<Rightarrow> int \<Rightarrow> process \<Rightarrow> (error + nat) \<times> process" where
  "get_global_id_generator dc_id wk_id s =
     (case global_generator s of
        None \<Rightarrow>
          (case SnowflakeIdGenerator dc_id wk_id of
             Inl e \<Rightarrow> (Inl e, s)
           | Inr g \<Rightarrow>
               (Inr (length (heap s)),
                s\<lparr>heap := heap s @ [g], global_generator := Some (length (heap s))\<rparr>))
      | Some r \<Rightarrow> (Inr r, s))"

text \<open>A series of calls of \<^verbatim>\<open>get_global_id_generator\<close>, one for each pair of arguments.\<close>

fun get_global_calls :: "(int \<times> int) list \<Rightarrow> process \<Rightarrow> (error + nat) list \<times> process" where
  "get_global_calls [] s = ([], s)"
| "get_global_calls ((dc_id, wk_id) # args) s =
     (case get_global_id_generator dc_id wk_id s of
        (r, s') \<Rightarrow> (case get_global_calls args s' of (rs, s'') \<Rightarrow> (r # rs, s'')))"

fun returned_refs :: "(error + nat) list \<Rightarrow> nat list" where
  "returned_refs [] = []"
| "returned_refs (Inl e # rs) = returned_refs rs"
| "returned_refs (Inr r # rs) = r # returned_refs rs"

text \<open>
  Python's \<^verbatim>\<open>str\<close> of an integer, which the f-string of
  \<^verbatim>\<open>create_unique_id_with_prefix\<close> applies: the decimal digits, after a minus sign
  when the integer is negative.
\<close>

definition digit_char :: "nat \<Rightarrow> char" where
  "digit_char d = ''0123456789'' ! d"

fun decimal :: "nat \<Rightarrow> string" where
  "decimal n = (if n < 10 then [digit_char n] else decimal (n div 10) @ [digit_char (n mod 10)])"

declare decimal.simps [simp del]

definition str :: "int \<Rightarrow> string" where
  "str i = (if i < 0 then CHR ''-'' # decimal (nat (- i)) else decimal (nat i))"

text \<open>
  \<^verbatim>\<open>create_unique_id_with_prefix\<close> constructs an instance, calls \<^verbatim>\<open>generate_id\<close> on it
  once and formats the result.  The instance is a local of the call: it is added to the
  store and nothing refers to it afterwards.  An error of the constructor or of
  \<^verbatim>\<open>generate_id\<close> leaves the function as it is.
\<close>

definition create_unique_id_with_prefix ::
    "string \<Rightarrow> int \<Rightarrow> int \<Rightarrow> clock \<Rightarrow> process \<Rightarrow> ((error + string) \<times> process) option" where
  "create_unique_id_with_prefix prefix dc_id wk_id clk s =
     (case SnowflakeIdGenerator dc_id wk_id of
        Inl e \<Rightarrow> Some (Inl e, s)
      | Inr id_generator \<Rightarrow>
          (case generate_id clk (ticks s) id_generator of
             None \<Rightarrow> None
           | Some (Inl e, g', p') \<Rightarrow>
               Some (Inl e, s\<lparr>heap := heap s @ [g'], ticks := p'\<rparr>)
           | Some (Inr snowflake_id, g', p') \<Rightarrow>
               Some (Inr (prefix @ str snowflake_id), s\<lparr>heap := heap s @ [g'], ticks := p'\<rparr>)))"

subsection \<open>Stubbed clocks\<close>

text \<open>
  A clock for running the definitions on examples: its readings are those of the list, in
  order, and \<open>t\<close> from then on.
\<close>

definition stub_clock :: "int list \<Rightarrow> int \<Rightarrow> clock" where
  "stub_clock ts t = (\<lambda>p. if p < length ts then ts ! p else t)"

text \<open>
  The instance that \<^verbatim>\<open>SnowflakeIdGenerator(1, 1)\<close> constructs, at a moment when its
  sequence number is \<open>s\<close> and its last timestamp is \<open>t\<close>.
\<close>

definition example_instance :: "int \<Rightarrow> int \<Rightarrow> generator" where
  "example_instance s t =
     \<lparr>datacenter_id = 1, worker_id = 1, sequence_number = s, last_timestamp = t,
      max_datacenter_id = 31, max_worker_id = 31, max_sequence = 4095,
      worker_id_shift = 12, datacenter_id_shift = 17, timestamp_shift = 22\<rparr>"

subsection \<open>The configuration of an instance\<close>

text \<open>
  What \<^verbatim>\<open>__init__\<close> establishes and no method changes: the two ids, in range, and the
  mask and the shifts that are computed from the bit counts.
\<close>

definition configured :: "int \<Rightarrow> int \<Rightarrow> generator \<Rightarrow> bool" where
  "configured dc wk g \<longleftrightarrow>
     datacenter_id g = dc \<and> worker_id g = wk \<and> 0 \<le> dc \<and> dc \<le> 31 \<and> 0 \<le> wk \<and> wk \<le> 31 \<and>
     max_sequence g = 4095 \<and> worker_id_shift g = 12 \<and> datacenter_id_shift g = 17 \<and>
     timestamp_shift g = 22"

section \<open>Properties\<close>

subsection \<open>The constants and the constructor\<close>

lemma calculate_max_value_5: "calculate_max_value 5 = 31"
  by (simp add: calculate_max_value_def mask_eq_exp_minus_1)

lemma calculate_max_value_12: "calculate_max_value 12 = 4095"
  by (simp add: calculate_max_value_def mask_eq_exp_minus_1)

lemma validate_ids_None:
  "validate_ids dc wk = None \<longleftrightarrow> 0 \<le> dc \<and> dc \<le> 31 \<and> 0 \<le> wk \<and> wk \<le> 31"
  by (auto simp: validate_ids_def DATACENTER_ID_BITS_def WORKER_ID_BITS_def calculate_max_value_5)

lemma SnowflakeIdGenerator_Inr:
  "SnowflakeIdGenerator dc wk = Inr g \<longleftrightarrow>
     0 \<le> dc \<and> dc \<le> 31 \<and> 0 \<le> wk \<and> wk \<le> 31 \<and>
     g = \<lparr>datacenter_id = dc, worker_id = wk, sequence_number = 0, last_timestamp = - 1,
          max_datacenter_id = 31, max_worker_id = 31, max_sequence = 4095,
          worker_id_shift = 12, datacenter_id_shift = 17, timestamp_shift = 22\<rparr>"
proof (cases "validate_ids dc wk")
  case None
  then show ?thesis
    using validate_ids_None [of dc wk]
    by (auto simp: SnowflakeIdGenerator_def DATACENTER_ID_BITS_def
      WORKER_ID_BITS_def SEQUENCE_BITS_def calculate_max_value_5 calculate_max_value_12)
next
  case (Some e)
  then show ?thesis
    using validate_ids_None [of dc wk]
    by (auto simp: SnowflakeIdGenerator_def)
qed

text \<open>
  Claim C7.  The construction fails exactly when the datacenter id or the worker id lies
  outside 0..31: it fails for the datacenter id 32, whatever the worker id, and for the
  worker id -1 with a datacenter id in range; it succeeds for the datacenter id 0 with
  the worker id 31.  The instance constructed has the two ids it was given, the sequence
  number 0 and the last timestamp -1, the value that stands for "no reading yet".
\<close>

theorem construction_range_check:
  "((\<exists>e. SnowflakeIdGenerator dc wk = Inl e) \<longleftrightarrow> \<not> (0 \<le> dc \<and> dc \<le> 31 \<and> 0 \<le> wk \<and> wk \<le> 31))
   \<and> (\<forall>g. SnowflakeIdGenerator dc wk = Inr g \<longrightarrow>
          datacenter_id g = dc \<and> worker_id g = wk \<and> sequence_number g = 0 \<and> last_timestamp g = - 1)
   \<and> SnowflakeIdGenerator 32 wk = Inl DatacenterIdOutOfRange
   \<and> (0 \<le> dc \<and> dc \<le> 31 \<longrightarrow> SnowflakeIdGenerator dc (- 1) = Inl WorkerIdOutOfRange)
   \<and> (\<exists>g. SnowflakeIdGenerator 0 31 = Inr g)"
proof -
  have "(\<exists>e. SnowflakeIdGenerator dc wk = Inl e) \<longleftrightarrow> validate_ids dc wk \<noteq> None"
    by (auto simp: SnowflakeIdGenerator_def split: option.splits)
  then have 1: "(\<exists>e. SnowflakeIdGenerator dc wk = Inl e) \<longleftrightarrow> \<not> (0 \<le> dc \<and> dc \<le> 31 \<and> 0 \<le> wk \<and> wk \<le> 31)"
    by (simp add: validate_ids_None)
  have 2: "\<forall>g. SnowflakeIdGenerator dc wk = Inr g \<longrightarrow>
          datacenter_id g = dc \<and> worker_id g = wk \<and> sequence_number g = 0 \<and> last_timestamp g = - 1"
    by (simp add: SnowflakeIdGenerator_Inr)
  have 3: "SnowflakeIdGenerator 32 wk = Inl DatacenterIdOutOfRange"
    by (simp add: SnowflakeIdGenerator_def validate_ids_def DATACENTER_ID_BITS_def calculate_max_value_5)
  have 4: "0 \<le> dc \<and> dc \<le> 31 \<longrightarrow> SnowflakeIdGenerator dc (- 1) = Inl WorkerIdOutOfRange"
    by (simp add: SnowflakeIdGenerator_def validate_ids_def DATACENTER_ID_BITS_def WORKER_ID_BITS_def calculate_max_value_5)
  have 5: "\<exists>g. SnowflakeIdGenerator 0 31 = Inr g"
    by (simp add: SnowflakeIdGenerator_Inr)
  from 1 2 3 4 5 show ?thesis by blast
qed

theorem construction_range_check_witness:
  "SnowflakeIdGenerator 0 31 =
     Inr \<lparr>datacenter_id = 0, worker_id = 31, sequence_number = 0, last_timestamp = - 1,
          max_datacenter_id = 31, max_worker_id = 31, max_sequence = 4095,
          worker_id_shift = 12, datacenter_id_shift = 17, timestamp_shift = 22\<rparr>
   \<and> SnowflakeIdGenerator 32 1 = Inl DatacenterIdOutOfRange
   \<and> SnowflakeIdGenerator 3 (- 1) = Inl WorkerIdOutOfRange"
  using construction_range_check [of 3 1] construction_range_check [of 0 31]
  by (simp add: SnowflakeIdGenerator_Inr)

subsection \<open>The wait for the next millisecond\<close>

lemma wait_loop_past: "last_seen < cur \<Longrightarrow> wait_loop clk last_seen cur p = Some (cur, p)"
  by (subst wait_loop.simps) simp

lemma wait_loop_Some:
  assumes "cur \<le> last_seen" "p \<le> k" "last_seen < clk k"
    and "\<forall>j. p \<le> j \<and> j < k \<longrightarrow> clk j \<le> last_seen"
  shows "wait_loop clk last_seen cur p = Some (clk k, Suc k)"
  using assms
proof (induction "k - p" arbitrary: p cur)
  case 0
  then have "p = k" by simp
  with 0 show ?case
    by (subst wait_loop.simps) (simp add: get_current_timestamp_millis_def wait_loop_past)
next
  case (Suc d)
  then have less: "p < k" by simp
  with Suc.prems have here: "clk p \<le> last_seen" by simp
  have "wait_loop clk last_seen (clk p) (Suc p) = Some (clk k, Suc k)"
    using Suc.hyps(2) Suc.prems less here by (intro Suc.hyps(1)) auto
  with Suc.prems(1) show ?case
    by (subst wait_loop.simps) (simp add: get_current_timestamp_millis_def)
qed

lemma wait_loop_result_aux:
  "wait_loop clk last_seen cur p = Some y \<Longrightarrow>
     last_seen < fst y \<and> ((fst y = cur \<and> snd y = p) \<or> (\<exists>k\<ge>p. snd y = Suc k \<and> fst y = clk k))"
proof (induction rule: wait_loop.raw_induct [rotated 1, consumes 1])
  case (1 f clk last_seen cur p y)
  show ?case
  proof (cases "cur \<le> last_seen")
    case True
    with 1(2) have "f clk last_seen (clk p) (Suc p) = Some y"
      by (simp add: get_current_timestamp_millis_def)
    from 1(1) [OF this] show ?thesis by auto
  next
    case False
    with 1(2) show ?thesis by auto
  qed
qed

lemma wait_loop_result:
  assumes "wait_loop clk last_seen cur p = Some (t, q)"
  shows "last_seen < t \<and> ((t = cur \<and> q = p) \<or> (\<exists>k\<ge>p. q = Suc k \<and> t = clk k))"
  using wait_loop_result_aux [OF assms] by simp

lemma wait_loop_None:
  assumes "cur \<le> last_seen" "\<forall>k\<ge>p. clk k \<le> last_seen"
  shows "wait_loop clk last_seen cur p = None"
proof (cases "wait_loop clk last_seen cur p")
  case None
  then show ?thesis .
next
  case (Some r)
  obtain t q where "r = (t, q)" by (cases r)
  with Some wait_loop_result [of clk last_seen cur p t q] assms show ?thesis
    by (auto simp: not_less [symmetric])
qed

lemma wait_for_next_millisecond_Some:
  assumes "p \<le> k" "last_seen < clk k" "\<forall>j. p \<le> j \<and> j < k \<longrightarrow> clk j \<le> last_seen"
  shows "wait_for_next_millisecond clk p last_seen = Some (clk k, Suc k)"
proof (cases "p = k")
  case True
  with assms show ?thesis
    by (simp add: wait_for_next_millisecond_def get_current_timestamp_millis_def wait_loop_past)
next
  case False
  with assms have "clk p \<le> last_seen" "Suc p \<le> k" by auto
  with assms show ?thesis
    by (simp add: wait_for_next_millisecond_def get_current_timestamp_millis_def wait_loop_Some)
qed

lemma wait_for_next_millisecond_result:
  assumes "wait_for_next_millisecond clk p last_seen = Some (t, q)"
  shows "last_seen < t \<and> (\<exists>k\<ge>p. q = Suc k \<and> t = clk k)"
  using wait_loop_result [of clk last_seen "clk p" "Suc p" t q] assms
  by (auto simp: wait_for_next_millisecond_def get_current_timestamp_millis_def intro: Suc_leD)

lemma wait_for_next_millisecond_None:
  assumes "\<forall>k\<ge>p. clk k \<le> last_seen"
  shows "wait_for_next_millisecond clk p last_seen = None"
  using assms
  by (simp add: wait_for_next_millisecond_def get_current_timestamp_millis_def wait_loop_None)

subsection \<open>The identifier as a number\<close>

lemma and_4095: "(x::int) AND 4095 = x mod 4096"
proof -
  have "x AND mask 12 = take_bit 12 x" by (simp add: take_bit_eq_mask)
  then show ?thesis by (simp add: take_bit_eq_mod mask_eq_exp_minus_1)
qed

lemma and_31: "(x::int) AND 31 = x mod 32"
proof -
  have "x AND mask 5 = take_bit 5 x" by (simp add: take_bit_eq_mask)
  then show ?thesis by (simp add: take_bit_eq_mod mask_eq_exp_minus_1)
qed

lemma push_or_add:
  fixes a b :: int
  assumes "0 \<le> b" "b < 2 ^ n"
  shows "push_bit n a OR b = a * 2 ^ n + b"
proof -
  have b: "take_bit n b = b" using assms by (simp add: take_bit_int_eq_self)
  have "push_bit n a + take_bit n b = push_bit n a OR take_bit n b"
    by (rule disjunctive_add) (auto simp: bit_push_bit_iff bit_take_bit_iff)
  then show ?thesis by (simp add: b push_bit_eq_mult)
qed

lemma build_snowflake_id_value:
  assumes "configured dc wk g" "0 \<le> sequence_number g" "sequence_number g \<le> 4095"
  shows "build_snowflake_id g ts =
           (ts - EPOCH_TIMESTAMP) * 4194304 + dc * 131072 + wk * 4096 + sequence_number g"
proof -
  let ?s = "sequence_number g"
  from assms have c: "datacenter_id g = dc" "worker_id g = wk" "0 \<le> dc" "dc \<le> 31" "0 \<le> wk" "wk \<le> 31"
    "worker_id_shift g = 12" "datacenter_id_shift g = 17" "timestamp_shift g = 22"
    by (simp_all add: configured_def)
  have 1: "push_bit 12 wk OR ?s = wk * 4096 + ?s"
    using push_or_add [of ?s 12 wk] assms by simp
  have 2: "push_bit 17 dc OR (wk * 4096 + ?s) = dc * 131072 + (wk * 4096 + ?s)"
    using push_or_add [of "wk * 4096 + ?s" 17 dc] assms c by simp
  have 3: "push_bit 22 (ts - EPOCH_TIMESTAMP) OR (dc * 131072 + (wk * 4096 + ?s))
             = (ts - EPOCH_TIMESTAMP) * 4194304 + (dc * 131072 + (wk * 4096 + ?s))"
    using push_or_add [of "dc * 131072 + (wk * 4096 + ?s)" 22 "ts - EPOCH_TIMESTAMP"] assms c by simp
  have "build_snowflake_id g ts =
          push_bit 22 (ts - EPOCH_TIMESTAMP) OR (push_bit 17 dc OR (push_bit 12 wk OR ?s))"
    by (simp add: build_snowflake_id_def c or.assoc)
  then show ?thesis by (simp add: 1 2 3)
qed

lemma build_snowflake_id_mono:
  assumes "configured dc wk g" "0 \<le> sequence_number g" "sequence_number g \<le> 4095"
    and "configured dc wk g'" "0 \<le> sequence_number g'" "sequence_number g' \<le> 4095"
    and "ts < ts' \<or> (ts = ts' \<and> sequence_number g < sequence_number g')"
  shows "build_snowflake_id g ts < build_snowflake_id g' ts'"
  using assms(2,3,5,6,7)
  by (auto simp: build_snowflake_id_value [OF assms(1-3)] build_snowflake_id_value [OF assms(4-6)])

subsection \<open>One call\<close>

lemma configured_constructed:
  "SnowflakeIdGenerator dc wk = Inr g0 \<Longrightarrow>
     configured dc wk (g0\<lparr>sequence_number := s, last_timestamp := t\<rparr>)"
  by (auto simp: SnowflakeIdGenerator_Inr configured_def)

lemma configured_fresh:
  "SnowflakeIdGenerator dc wk = Inr g0 \<Longrightarrow> configured dc wk g0"
  by (auto simp: SnowflakeIdGenerator_Inr configured_def)

lemma generate_id_error:
  "generate_id clk p g = Some (Inl e, g', p') \<longleftrightarrow>
     clk p < last_timestamp g \<and> e = ClockMovedBackwards \<and> g' = g \<and> p' = Suc p"
  by (auto simp: generate_id_def get_current_timestamp_millis_def emit_def Let_def
      split: option.splits)

lemma generate_id_new_millisecond:
  "last_timestamp g < clk p \<Longrightarrow>
     generate_id clk p g =
       Some (Inr (build_snowflake_id (g\<lparr>sequence_number := 0, last_timestamp := clk p\<rparr>) (clk p)),
             g\<lparr>sequence_number := 0, last_timestamp := clk p\<rparr>, Suc p)"
  by (simp add: generate_id_def get_current_timestamp_millis_def emit_def Let_def)

lemma generate_id_same_millisecond:
  "clk p = last_timestamp g \<Longrightarrow> (sequence_number g + 1) AND max_sequence g \<noteq> 0 \<Longrightarrow>
     generate_id clk p g =
       Some (Inr (build_snowflake_id
                    (g\<lparr>sequence_number := (sequence_number g + 1) AND max_sequence g\<rparr>) (clk p)),
             g\<lparr>sequence_number := (sequence_number g + 1) AND max_sequence g\<rparr>, Suc p)"
  by (simp add: generate_id_def get_current_timestamp_millis_def emit_def Let_def)

lemma generate_id_rollover:
  "clk p = last_timestamp g \<Longrightarrow> (sequence_number g + 1) AND max_sequence g = 0 \<Longrightarrow>
     generate_id clk p g =
       (case wait_for_next_millisecond clk (Suc p) (last_timestamp g) of
          None \<Rightarrow> None
        | Some (t, p2) \<Rightarrow>
            Some (Inr (build_snowflake_id (g\<lparr>sequence_number := 0, last_timestamp := t\<rparr>) t),
                  g\<lparr>sequence_number := 0, last_timestamp := t\<rparr>, p2))"
  by (simp add: generate_id_def get_current_timestamp_millis_def emit_def Let_def
      split: option.splits)

lemma generate_id_success:
  assumes c: "configured dc wk g"
    and ok: "generate_id clk p g = Some (Inr i, g', p')"
  shows "configured dc wk g' \<and> i = build_snowflake_id g' (last_timestamp g') \<and>
         0 \<le> sequence_number g' \<and> sequence_number g' \<le> 4095 \<and>
         p < p' \<and> last_timestamp g' = clk (p' - 1) \<and>
         (last_timestamp g < last_timestamp g' \<and> sequence_number g' = 0 \<or>
          last_timestamp g = last_timestamp g' \<and> sequence_number g' \<noteq> 0 \<and>
            sequence_number g' = (sequence_number g + 1) mod 4096)"
proof -
  from c have m: "max_sequence g = 4095" by (simp add: configured_def)
  consider (regress) "clk p < last_timestamp g"
    | (advance) "last_timestamp g < clk p"
    | (same) "clk p = last_timestamp g" and "(sequence_number g + 1) AND max_sequence g \<noteq> 0"
    | (roll) "clk p = last_timestamp g" and "(sequence_number g + 1) AND max_sequence g = 0"
    by fastforce
  then show ?thesis
  proof cases
    case regress
    then have "generate_id clk p g = Some (Inl ClockMovedBackwards, g, Suc p)"
      by (simp add: generate_id_error)
    with ok show ?thesis by simp
  next
    case advance
    from ok c advance show ?thesis
      by (auto simp: generate_id_new_millisecond [where clk = clk and p = p and g = g] configured_def)
  next
    case same
    from ok c same show ?thesis
      by (auto simp: generate_id_same_millisecond [where clk = clk and p = p and g = g] configured_def and_4095)
  next
    case roll
    from ok roll obtain t p2 where w: "wait_for_next_millisecond clk (Suc p) (last_timestamp g) = Some (t, p2)"
      by (auto simp: generate_id_rollover [where clk = clk and p = p and g = g] split: option.splits)
    from wait_for_next_millisecond_result [OF w] obtain k where
      k: "last_timestamp g < t" "Suc p \<le> k" "p2 = Suc k" "t = clk k" by auto
    from ok w c k roll show ?thesis
      by (auto simp: generate_id_rollover [where clk = clk and p = p and g = g] configured_def)
  qed
qed

lemma generate_id_increases:
  assumes c: "configured dc wk g" "0 \<le> sequence_number g" "sequence_number g \<le> 4095"
    and ok: "generate_id clk p g = Some (Inr i, g', p')"
  shows "build_snowflake_id g (last_timestamp g) < i"
proof -
  note s = generate_id_success [OF c(1) ok]
  have "last_timestamp g < last_timestamp g' \<or>
        last_timestamp g = last_timestamp g' \<and> sequence_number g < sequence_number g'"
  proof (cases "last_timestamp g < last_timestamp g'")
    case True
    then show ?thesis by simp
  next
    case False
    with s have e: "last_timestamp g = last_timestamp g'" "sequence_number g' \<noteq> 0"
      "sequence_number g' = (sequence_number g + 1) mod 4096" by auto
    have "sequence_number g + 1 \<noteq> 4096" using e by auto
    with c have "(sequence_number g + 1) mod 4096 = sequence_number g + 1" by simp
    with e show ?thesis by simp
  qed
  with s c show ?thesis
    by (auto intro!: build_snowflake_id_mono [of dc wk])
qed

subsection \<open>A series of calls\<close>

lemma generate_ids_Suc_Some:
  assumes "generate_ids clk p g (Suc n) = Some (rs, g', p')"
  obtains r g1 p1 rs' where "generate_id clk p g = Some (r, g1, p1)"
    and "generate_ids clk p1 g1 n = Some (rs', g', p')" and "rs = r # rs'"
  using assms by (auto split: option.splits prod.splits)

lemma generate_ids_increasing:
  assumes "configured dc wk g" "0 \<le> sequence_number g" "sequence_number g \<le> 4095"
    and "generate_ids clk p g n = Some (rs, g', p')"
  shows "configured dc wk g' \<and> 0 \<le> sequence_number g' \<and> sequence_number g' \<le> 4095 \<and>
         build_snowflake_id g (last_timestamp g) \<le> build_snowflake_id g' (last_timestamp g') \<and>
         sorted_wrt (<) (returned_ids rs) \<and>
         (\<forall>i\<in>set (returned_ids rs). build_snowflake_id g (last_timestamp g) < i)"
  using assms
proof (induction n arbitrary: p g rs)
  case 0
  then show ?case by simp
next
  case (Suc n)
  from Suc.prems(4) obtain r g1 p1 rs' where
    step: "generate_id clk p g = Some (r, g1, p1)" and
    rest: "generate_ids clk p1 g1 n = Some (rs', g', p')" and rs: "rs = r # rs'"
    by (rule generate_ids_Suc_Some)
  show ?case
  proof (cases r)
    case (Inl e)
    with step have "g1 = g" by (simp add: generate_id_error)
    with Suc.IH [OF _ _ _ rest] Suc.prems(1-3) rs Inl show ?thesis by simp
  next
    case (Inr i)
    with step have ok: "generate_id clk p g = Some (Inr i, g1, p1)" by simp
    note s = generate_id_success [OF Suc.prems(1) ok]
    have lt: "build_snowflake_id g (last_timestamp g) < i"
      by (rule generate_id_increases [OF Suc.prems(1-3) ok])
    from s have i: "i = build_snowflake_id g1 (last_timestamp g1)" by simp
    from s have "configured dc wk g1" "0 \<le> sequence_number g1" "sequence_number g1 \<le> 4095"
      by simp_all
    note ih = Suc.IH [OF this rest]
    from ih lt i rs Inr show ?thesis by fastforce
  qed
qed

subsection \<open>The claims about a series of calls\<close>

lemma example_instance_constructed: "SnowflakeIdGenerator 1 1 = Inr (example_instance 0 (- 1))"
  by (simp add: SnowflakeIdGenerator_Inr example_instance_def)

text \<open>
  Claim C1.  The identifiers that any series of calls on one instance returns are pairwise
  distinct, whatever the clock reads, also on the calls that fail.  The calls are taken
  one after the other, as the lock of the instance makes them.
\<close>

theorem generated_ids_distinct:
  assumes "SnowflakeIdGenerator dc wk = Inr g0"
    and "generate_ids clk p g0 n = Some (rs, g, p')"
  shows "distinct (returned_ids rs)"
proof -
  from assms(1) have "configured dc wk g0" "0 \<le> sequence_number g0" "sequence_number g0 \<le> 4095"
    by (simp_all add: configured_fresh SnowflakeIdGenerator_Inr)
  from generate_ids_increasing [OF this assms(2)] have "sorted_wrt (<) (returned_ids rs)"
    by simp
  then show ?thesis by (simp add: strict_sorted_iff)
qed

theorem generated_ids_distinct_witness:
  "SnowflakeIdGenerator 1 1 = Inr (example_instance 0 (- 1))
   \<and> generate_ids
         (stub_clock [1288834974657, 1288834974657, 1288834974656, 1288834974657, 1288834974658] 0)
         0 (example_instance 0 (- 1)) 5 =
       Some ([Inr 135168, Inr 135169, Inl ClockMovedBackwards, Inr 135170, Inr 4329472],
             example_instance 0 1288834974658, 5)
   \<and> distinct (returned_ids
         [Inr 135168, Inr 135169, Inl ClockMovedBackwards, Inr 135170, Inr 4329472])"
proof -
  have run: "generate_ids
         (stub_clock [1288834974657, 1288834974657, 1288834974656, 1288834974657, 1288834974658] 0)
         0 (example_instance 0 (- 1)) 5 =
       Some ([Inr 135168, Inr 135169, Inl ClockMovedBackwards, Inr 135170, Inr 4329472],
             example_instance 0 1288834974658, 5)"
    by code_simp
  from generated_ids_distinct [OF example_instance_constructed run] example_instance_constructed run
  show ?thesis by blast
qed

text \<open>
  Claim C2.  When a call A returns an identifier before a call B on the same instance
  starts, and B returns an identifier, that of A is strictly less than that of B.  The
  calls before A and between A and B are any calls, failed ones too.  No hypothesis on
  the clock is needed: a call that reads an earlier time fails, so the readings of the
  successful calls never decrease.
\<close>

theorem later_id_greater:
  assumes "SnowflakeIdGenerator dc wk = Inr g0"
    and "generate_ids clk p0 g0 n1 = Some (rs1, g1, p1)"
    and "generate_id clk p1 g1 = Some (Inr a, g2, p2)"
    and "generate_ids clk p2 g2 n2 = Some (rs2, g3, p3)"
    and "generate_id clk p3 g3 = Some (Inr b, g4, p4)"
  shows "a < b"
proof -
  from assms(1) have "configured dc wk g0" "0 \<le> sequence_number g0" "sequence_number g0 \<le> 4095"
    by (simp_all add: configured_fresh SnowflakeIdGenerator_Inr)
  from generate_ids_increasing [OF this assms(2)]
  have g1: "configured dc wk g1" by simp
  from generate_id_success [OF g1 assms(3)]
  have g2: "configured dc wk g2" "0 \<le> sequence_number g2" "sequence_number g2 \<le> 4095"
    and a: "a = build_snowflake_id g2 (last_timestamp g2)" by simp_all
  from generate_ids_increasing [OF g2 assms(4)]
  have g3: "configured dc wk g3" "0 \<le> sequence_number g3" "sequence_number g3 \<le> 4095"
    and le: "build_snowflake_id g2 (last_timestamp g2) \<le> build_snowflake_id g3 (last_timestamp g3)"
    by simp_all
  from generate_id_increases [OF g3 assms(5)] le a show ?thesis by simp
qed

theorem later_id_greater_witness:
  "SnowflakeIdGenerator 1 1 = Inr (example_instance 0 (- 1))
   \<and> generate_ids (stub_clock [1288834974657, 1288834974657, 1288834974656, 1288834974657] 0)
         0 (example_instance 0 (- 1)) 1 =
       Some ([Inr 135168], example_instance 0 1288834974657, 1)
   \<and> generate_id (stub_clock [1288834974657, 1288834974657, 1288834974656, 1288834974657] 0)
         1 (example_instance 0 1288834974657) =
       Some (Inr 135169, example_instance 1 1288834974657, 2)
   \<and> generate_ids (stub_clock [1288834974657, 1288834974657, 1288834974656, 1288834974657] 0)
         2 (example_instance 1 1288834974657) 1 =
       Some ([Inl ClockMovedBackwards], example_instance 1 1288834974657, 3)
   \<and> generate_id (stub_clock [1288834974657, 1288834974657, 1288834974656, 1288834974657] 0)
         3 (example_instance 1 1288834974657) =
       Some (Inr 135170, example_instance 2 1288834974657, 4)
   \<and> (135169 :: int) < 135170"
proof -
  let ?clk = "stub_clock [1288834974657, 1288834974657, 1288834974656, 1288834974657] 0"
  have 1: "generate_ids ?clk 0 (example_instance 0 (- 1)) 1 =
             Some ([Inr 135168], example_instance 0 1288834974657, 1)"
    by code_simp
  have 2: "generate_id ?clk 1 (example_instance 0 1288834974657) =
             Some (Inr 135169, example_instance 1 1288834974657, 2)"
    by code_simp
  have 3: "generate_ids ?clk 2 (example_instance 1 1288834974657) 1 =
             Some ([Inl ClockMovedBackwards], example_instance 1 1288834974657, 3)"
    by code_simp
  have 4: "generate_id ?clk 3 (example_instance 1 1288834974657) =
             Some (Inr 135170, example_instance 2 1288834974657, 4)"
    by code_simp
  from later_id_greater [OF example_instance_constructed 1 2 3 4] example_instance_constructed 1 2 3 4
  show ?thesis by blast
qed

subsection \<open>The claims about one call\<close>

text \<open>
  Claim C3.  A call raises the clock error exactly when its reading is strictly less than
  the last timestamp.  It then returns no identifier and leaves the instance as it was,
  and the next call, when it reads a time later than the last timestamp, returns an
  identifier.
\<close>

theorem clock_regression:
  "((\<exists>e g' p'. generate_id clk p g = Some (Inl e, g', p')) \<longleftrightarrow> clk p < last_timestamp g)
   \<and> (clk p < last_timestamp g \<longrightarrow>
        generate_id clk p g = Some (Inl ClockMovedBackwards, g, Suc p)
        \<and> (last_timestamp g < clk (Suc p) \<longrightarrow>
             (\<exists>i g''. generate_id clk (Suc p) g = Some (Inr i, g'', Suc (Suc p))
                      \<and> last_timestamp g'' = clk (Suc p))))"
proof -
  have 1: "(\<exists>e g' p'. generate_id clk p g = Some (Inl e, g', p')) \<longleftrightarrow> clk p < last_timestamp g"
    by (simp add: generate_id_error)
  have 2: "clk p < last_timestamp g \<longrightarrow> generate_id clk p g = Some (Inl ClockMovedBackwards, g, Suc p)"
    by (simp add: generate_id_error)
  have 3: "last_timestamp g < clk (Suc p) \<longrightarrow>
             (\<exists>i g''. generate_id clk (Suc p) g = Some (Inr i, g'', Suc (Suc p))
                      \<and> last_timestamp g'' = clk (Suc p))"
    by (simp add: generate_id_new_millisecond)
  from 1 2 3 show ?thesis by blast
qed

theorem clock_regression_witness:
  "stub_clock [1288834974656, 1288834974658] 0 0 < last_timestamp (example_instance 1 1288834974657)
   \<and> generate_id (stub_clock [1288834974656, 1288834974658] 0) 0 (example_instance 1 1288834974657) =
       Some (Inl ClockMovedBackwards, example_instance 1 1288834974657, Suc 0)
   \<and> last_timestamp (example_instance 1 1288834974657) < stub_clock [1288834974656, 1288834974658] 0 (Suc 0)
   \<and> generate_id (stub_clock [1288834974656, 1288834974658] 0) (Suc 0) (example_instance 1 1288834974657) =
       Some (Inr 4329472, example_instance 0 1288834974658, Suc (Suc 0))"
proof -
  let ?clk = "stub_clock [1288834974656, 1288834974658] 0"
  let ?g = "example_instance 1 1288834974657"
  have regress: "?clk 0 < last_timestamp ?g"
    by (simp add: stub_clock_def example_instance_def)
  have forth: "last_timestamp ?g < ?clk (Suc 0)"
    by (simp add: stub_clock_def example_instance_def)
  from clock_regression [of ?clk 0 ?g] regress
  have 1: "generate_id ?clk 0 ?g = Some (Inl ClockMovedBackwards, ?g, Suc 0)"
    by blast
  have 2: "generate_id ?clk (Suc 0) ?g = Some (Inr 4329472, example_instance 0 1288834974658, Suc (Suc 0))"
    by code_simp
  from regress forth 1 2 show ?thesis by blast
qed

text \<open>
  Claim C4.  A call that reads the last timestamp \<open>t\<close> again increments the sequence
  number modulo 4096.  When the result is not 0 the identifier is built from \<open>t\<close> and the
  new sequence number.  When it is 0 the call reads the clock until a reading \<open>clk k\<close> is
  later than \<open>t\<close>: it then builds the identifier from \<open>clk k\<close> and the sequence number 0,
  and this identifier is greater than every identifier of the millisecond \<open>t\<close>, so none is
  repeated.  When no later reading comes, the call does not return.
\<close>

theorem sequence_rollover:
  assumes "SnowflakeIdGenerator dc wk = Inr g0"
    and "g = g0\<lparr>sequence_number := s, last_timestamp := t\<rparr>"
    and "clk p = t"
  shows "((s + 1) mod 4096 \<noteq> 0 \<longrightarrow>
            generate_id clk p g =
              Some (Inr (build_snowflake_id (g\<lparr>sequence_number := (s + 1) mod 4096\<rparr>) t),
                    g\<lparr>sequence_number := (s + 1) mod 4096\<rparr>, Suc p))
       \<and> ((s + 1) mod 4096 = 0 \<longrightarrow>
            (\<forall>k. p < k \<and> t < clk k \<and> (\<forall>j. p < j \<and> j < k \<longrightarrow> clk j \<le> t) \<longrightarrow>
               generate_id clk p g =
                 Some (Inr (build_snowflake_id (g\<lparr>sequence_number := 0, last_timestamp := clk k\<rparr>) (clk k)),
                       g\<lparr>sequence_number := 0, last_timestamp := clk k\<rparr>, Suc k)
               \<and> (\<forall>q. 0 \<le> q \<and> q \<le> 4095 \<longrightarrow>
                     build_snowflake_id (g\<lparr>sequence_number := q\<rparr>) t
                       < build_snowflake_id (g\<lparr>sequence_number := 0, last_timestamp := clk k\<rparr>) (clk k)))
            \<and> ((\<forall>k>p. clk k \<le> t) \<longrightarrow> generate_id clk p g = None))"
proof -
  from assms(1,2) have m: "max_sequence g = 4095" and sq: "sequence_number g = s"
    and lt: "last_timestamp g = t"
    by (auto simp: SnowflakeIdGenerator_Inr)
  have cg: "configured dc wk g"
    using configured_constructed [OF assms(1)] assms(2) by simp
  then have c: "configured dc wk (g\<lparr>sequence_number := a, last_timestamp := b\<rparr>)" for a b
    by (simp add: configured_def)
  from cg have c': "configured dc wk (g\<lparr>sequence_number := a\<rparr>)" for a
    by (simp add: configured_def)
  have here: "clk p = last_timestamp g" using assms(3) lt by simp
  have inc: "(sequence_number g + 1) AND max_sequence g = (s + 1) mod 4096"
    by (simp add: m sq and_4095)
  have 1: "generate_id clk p g =
              Some (Inr (build_snowflake_id (g\<lparr>sequence_number := (s + 1) mod 4096\<rparr>) t),
                    g\<lparr>sequence_number := (s + 1) mod 4096\<rparr>, Suc p)"
    if "(s + 1) mod 4096 \<noteq> 0"
    using generate_id_same_millisecond [where clk = clk and p = p and g = g] here inc that assms(3)
    by simp
  have 2: "generate_id clk p g =
                 Some (Inr (build_snowflake_id (g\<lparr>sequence_number := 0, last_timestamp := clk k\<rparr>) (clk k)),
                       g\<lparr>sequence_number := 0, last_timestamp := clk k\<rparr>, Suc k)"
    if "(s + 1) mod 4096 = 0" and k: "p < k" "t < clk k" "\<forall>j. p < j \<and> j < k \<longrightarrow> clk j \<le> t" for k
  proof -
    have "wait_for_next_millisecond clk (Suc p) (last_timestamp g) = Some (clk k, Suc k)"
      using k lt by (intro wait_for_next_millisecond_Some) auto
    with generate_id_rollover [where clk = clk and p = p and g = g] here inc that(1)
    show ?thesis by simp
  qed
  have 3: "build_snowflake_id (g\<lparr>sequence_number := q\<rparr>) t
             < build_snowflake_id (g\<lparr>sequence_number := 0, last_timestamp := clk k\<rparr>) (clk k)"
    if "t < clk k" "0 \<le> q" "q \<le> 4095" for k q
    using that by (intro build_snowflake_id_mono [OF c' _ _ c]) auto
  have 4: "generate_id clk p g = None" if "(s + 1) mod 4096 = 0" "\<forall>k>p. clk k \<le> t"
  proof -
    have "wait_for_next_millisecond clk (Suc p) (last_timestamp g) = None"
      using that(2) lt by (intro wait_for_next_millisecond_None) auto
    with generate_id_rollover [where clk = clk and p = p and g = g] here inc that(1)
    show ?thesis by simp
  qed
  show ?thesis
    by (intro conjI impI allI; (elim conjE)?; (rule 1 2 3 4; assumption))
qed

theorem sequence_rollover_witness:
  "SnowflakeIdGenerator 1 1 = Inr (example_instance 0 (- 1))
   \<and> example_instance 4095 1288834974657 =
       (example_instance 0 (- 1))\<lparr>sequence_number := 4095, last_timestamp := 1288834974657\<rparr>
   \<and> stub_clock [1288834974657, 1288834974657, 1288834974657, 1288834974658] 0 0 = 1288834974657
   \<and> (4095 + 1) mod 4096 = (0 :: int)
   \<and> generate_id (stub_clock [1288834974657, 1288834974657, 1288834974657, 1288834974658] 0) 0
         (example_instance 4095 1288834974657) =
       Some (Inr 4329472, example_instance 0 1288834974658, 4)
   \<and> build_snowflake_id (example_instance 4095 1288834974657) 1288834974657 < 4329472
   \<and> generate_id (stub_clock [] 1288834974657) 0 (example_instance 4095 1288834974657) = None
   \<and> generate_id (stub_clock [] 1288834974657) 0 (example_instance 7 1288834974657) =
       Some (Inr 135176, example_instance 8 1288834974657, 1)"
proof -
  let ?clk = "stub_clock [1288834974657, 1288834974657, 1288834974657, 1288834974658] 0"
  let ?frozen = "stub_clock [] 1288834974657"
  have g: "example_instance 4095 1288834974657 =
       (example_instance 0 (- 1))\<lparr>sequence_number := 4095, last_timestamp := 1288834974657\<rparr>"
    by (simp add: example_instance_def)
  have g7: "example_instance 7 1288834974657 =
       (example_instance 0 (- 1))\<lparr>sequence_number := 7, last_timestamp := 1288834974657\<rparr>"
    by (simp add: example_instance_def)
  have here: "?clk 0 = 1288834974657" by (simp add: stub_clock_def)
  have wrap: "(4095 + 1) mod 4096 = (0 :: int)" by simp
  have later: "0 < (3::nat) \<and> 1288834974657 < ?clk 3
                 \<and> (\<forall>j. 0 < j \<and> j < 3 \<longrightarrow> ?clk j \<le> 1288834974657)"
    by (auto simp: stub_clock_def nth_Cons split: nat.splits)
  have never: "\<forall>k>0. ?frozen k \<le> 1288834974657" by (simp add: stub_clock_def)
  have still: "?frozen 0 = 1288834974657" by (simp add: stub_clock_def)
  note r = sequence_rollover [where clk = ?clk and p = 0, OF example_instance_constructed g here]
  note f = sequence_rollover [where clk = ?frozen and p = 0, OF example_instance_constructed g still]
  note i = sequence_rollover [where clk = ?frozen and p = 0, OF example_instance_constructed g7 still]
  from r wrap later
  have 1: "generate_id ?clk 0 (example_instance 4095 1288834974657) =
       Some (Inr (build_snowflake_id ((example_instance 4095 1288834974657)
               \<lparr>sequence_number := 0, last_timestamp := ?clk 3\<rparr>) (?clk 3)),
             (example_instance 4095 1288834974657)\<lparr>sequence_number := 0, last_timestamp := ?clk 3\<rparr>, Suc 3)"
    by blast
  have 2: "generate_id ?frozen 0 (example_instance 4095 1288834974657) = None"
    using f wrap never by blast
  have 3: "generate_id ?frozen 0 (example_instance 7 1288834974657) =
       Some (Inr (build_snowflake_id ((example_instance 7 1288834974657)
               \<lparr>sequence_number := (7 + 1) mod 4096\<rparr>) 1288834974657),
             (example_instance 7 1288834974657)\<lparr>sequence_number := (7 + 1) mod 4096\<rparr>, Suc 0)"
    using i by simp
  have e1: "build_snowflake_id (example_instance 0 1288834974658) (?clk 3) = 4329472"
    by code_simp
  have e2: "(example_instance 4095 1288834974657)\<lparr>sequence_number := 0, last_timestamp := ?clk 3\<rparr>
              = example_instance 0 1288834974658"
    by (simp add: example_instance_def stub_clock_def)
  have e3: "build_snowflake_id (example_instance 8 1288834974657) 1288834974657 = 135176"
    by code_simp
  have e4: "(example_instance 7 1288834974657)\<lparr>sequence_number := 8\<rparr>
              = example_instance 8 1288834974657"
    by (simp add: example_instance_def)
  have e5: "(example_instance 4095 1288834974657)\<lparr>sequence_number := 4095\<rparr>
              = example_instance 4095 1288834974657"
    by (simp add: example_instance_def)
  from r wrap later
  have "\<forall>q. 0 \<le> q \<and> q \<le> 4095 \<longrightarrow>
          build_snowflake_id ((example_instance 4095 1288834974657)\<lparr>sequence_number := q\<rparr>)
              1288834974657
            < build_snowflake_id ((example_instance 4095 1288834974657)
                \<lparr>sequence_number := 0, last_timestamp := ?clk 3\<rparr>) (?clk 3)"
    by blast
  then have "build_snowflake_id ((example_instance 4095 1288834974657)\<lparr>sequence_number := 4095\<rparr>)
              1288834974657
            < build_snowflake_id ((example_instance 4095 1288834974657)
                \<lparr>sequence_number := 0, last_timestamp := ?clk 3\<rparr>) (?clk 3)"
    by simp
  then have 5: "build_snowflake_id (example_instance 4095 1288834974657) 1288834974657 < 4329472"
    by (simp add: e1 e2 e5)
  from 1 2 3 5 show ?thesis
    by (simp add: e1 e2 e3 e4 example_instance_constructed g [symmetric] here)
qed

subsection \<open>The fields of an identifier\<close>

lemma field_arith:
  fixes d dc wk sq :: int
  assumes "0 \<le> dc" "dc \<le> 31" "0 \<le> wk" "wk \<le> 31" "0 \<le> sq" "sq \<le> 4095"
    and i: "i = d * 4194304 + dc * 131072 + wk * 4096 + sq"
  shows "i div 4096 mod 32 = wk" "i div 131072 mod 32 = dc" "i mod 4096 = sq" "i div 4194304 = d"
proof -
  have a: "i = (d * 1024 + dc * 32 + wk) * 4096 + sq" using i by simp
  have b: "i = (d * 32 + dc) * 131072 + (wk * 4096 + sq)" using i by simp
  have c: "i = d * 4194304 + (dc * 131072 + wk * 4096 + sq)" using i by simp
  have "i div 4096 = d * 1024 + dc * 32 + wk" using assms(5,6) by (simp add: a)
  moreover have "(d * 1024 + dc * 32 + wk) mod 32 = wk"
  proof -
    have "d * 1024 + dc * 32 + wk = (d * 32 + dc) * 32 + wk" by simp
    then show ?thesis using assms(3,4) by (simp only: mod_mult_self3) simp
  qed
  ultimately show "i div 4096 mod 32 = wk" by simp
  have "i div 131072 = d * 32 + dc" using assms by (simp add: b)
  then show "i div 131072 mod 32 = dc" using assms(1,2) by simp
  have "i mod 4096 = sq mod 4096" by (simp only: a mod_mult_self3)
  then show "i mod 4096 = sq" using assms(5,6) by simp
  show "i div 4194304 = d" using assms by (simp add: c)
qed

text \<open>
  Claim C5.  The identifier that a call returns is
  \<^verbatim>\<open>((t - EPOCH) << 22) | (datacenter_id << 17) | (worker_id << 12) | sequence\<close>, where
  \<open>t\<close> is the timestamp the call stores, which is the last reading it took, \<open>EPOCH\<close> is the
  constant 1288834974657 and \<open>sequence\<close> is the sequence number after the call.  The
  instance is any instance that the constructor made, whatever its sequence number and
  last timestamp are.
\<close>

theorem identifier_composition:
  assumes "SnowflakeIdGenerator dc wk = Inr g0"
    and "generate_id clk p (g0\<lparr>sequence_number := s, last_timestamp := t\<rparr>) = Some (Inr i, g', p')"
  shows "i = ((push_bit 22 (last_timestamp g' - EPOCH_TIMESTAMP) OR push_bit 17 dc)
                OR push_bit 12 wk) OR sequence_number g'
         \<and> EPOCH_TIMESTAMP = 1288834974657
         \<and> datacenter_id g' = dc \<and> worker_id g' = wk
         \<and> p < p' \<and> last_timestamp g' = clk (p' - 1)"
proof -
  note c = configured_constructed [OF assms(1), where s = s and t = t]
  note s = generate_id_success [OF c assms(2)]
  from s have "configured dc wk g'" by simp
  then have "build_snowflake_id g' (last_timestamp g') =
      ((push_bit 22 (last_timestamp g' - EPOCH_TIMESTAMP) OR push_bit 17 dc)
                OR push_bit 12 wk) OR sequence_number g'"
    and "datacenter_id g' = dc" "worker_id g' = wk"
    by (simp_all add: build_snowflake_id_def configured_def)
  with s show ?thesis by (simp add: EPOCH_TIMESTAMP_def)
qed

theorem identifier_composition_witness:
  "SnowflakeIdGenerator 1 1 = Inr (example_instance 0 (- 1))
   \<and> generate_id (stub_clock [1288834974657] 0) 0
         ((example_instance 0 (- 1))\<lparr>sequence_number := 1, last_timestamp := 1288834974657\<rparr>) =
       Some (Inr 135170, example_instance 2 1288834974657, 1)
   \<and> (135170 :: int) = ((push_bit 22 (1288834974657 - 1288834974657) OR push_bit 17 1)
                            OR push_bit 12 1) OR 2"
proof -
  have run: "generate_id (stub_clock [1288834974657] 0) 0
         ((example_instance 0 (- 1))\<lparr>sequence_number := 1, last_timestamp := 1288834974657\<rparr>) =
       Some (Inr 135170, example_instance 2 1288834974657, 1)"
    by code_simp
  note th = identifier_composition [where clk = "stub_clock [1288834974657] 0",
      OF example_instance_constructed run]
  from th have "(135170 :: int) = ((push_bit 22 (1288834974657 - 1288834974657) OR push_bit 17 1)
                            OR push_bit 12 1) OR 2"
    by (simp add: example_instance_def)
  with example_instance_constructed run show ?thesis by blast
qed

text \<open>
  Claim C6.  The fields are read back from a returned identifier: bits 12 to 16 are the
  worker id, bits 17 to 21 the datacenter id, bits 0 to 11 the sequence number after the
  call, which lies in 0..4095, and the bits from 22 on, plus the epoch, are the timestamp
  of the call.  Python's \<^verbatim>\<open>>>\<close> on a negative integer rounds down, as \<^const>\<open>drop_bit\<close> does.
\<close>

theorem bit_field_round_trip:
  assumes "SnowflakeIdGenerator dc wk = Inr g0"
    and "generate_id clk p (g0\<lparr>sequence_number := s, last_timestamp := t\<rparr>) = Some (Inr i, g', p')"
  shows "drop_bit 12 i AND 31 = wk \<and> drop_bit 17 i AND 31 = dc
         \<and> i AND 4095 = sequence_number g' \<and> 0 \<le> i AND 4095 \<and> i AND 4095 \<le> 4095
         \<and> drop_bit 22 i + EPOCH_TIMESTAMP = last_timestamp g'
         \<and> last_timestamp g' = clk (p' - 1)"
proof -
  note c = configured_constructed [OF assms(1), where s = s and t = t]
  note s = generate_id_success [OF c assms(2)]
  from s have c': "configured dc wk g'" and sq: "0 \<le> sequence_number g'" "sequence_number g' \<le> 4095"
    and i: "i = build_snowflake_id g' (last_timestamp g')" and r: "last_timestamp g' = clk (p' - 1)"
    by simp_all
  from c' have r: "0 \<le> dc" "dc \<le> 31" "0 \<le> wk" "wk \<le> 31" by (simp_all add: configured_def)
  have v: "i = (last_timestamp g' - EPOCH_TIMESTAMP) * 4194304 + dc * 131072 + wk * 4096
               + sequence_number g'"
    by (simp add: i build_snowflake_id_value [OF c' sq])
  note f = field_arith [OF r sq v]
  have 1: "drop_bit 12 i AND 31 = wk" using f(1) by (simp add: and_31 drop_bit_eq_div)
  have 2: "drop_bit 17 i AND 31 = dc" using f(2) by (simp add: and_31 drop_bit_eq_div)
  have 3: "i AND 4095 = sequence_number g'" using f(3) by (simp add: and_4095)
  have 4: "drop_bit 22 i + EPOCH_TIMESTAMP = last_timestamp g'" using f(4) by (simp add: drop_bit_eq_div)
  from 1 2 3 4 sq s show ?thesis by simp
qed

theorem bit_field_round_trip_witness:
  "SnowflakeIdGenerator 1 1 = Inr (example_instance 0 (- 1))
   \<and> generate_id (stub_clock [1288834974658] 0) 0
         ((example_instance 0 (- 1))\<lparr>sequence_number := 1, last_timestamp := 1288834974657\<rparr>) =
       Some (Inr 4329472, example_instance 0 1288834974658, 1)
   \<and> drop_bit 12 (4329472 :: int) AND 31 = 1
   \<and> drop_bit 17 (4329472 :: int) AND 31 = 1
   \<and> (4329472 :: int) AND 4095 = 0
   \<and> drop_bit 22 (4329472 :: int) + EPOCH_TIMESTAMP = 1288834974658"
proof -
  have run: "generate_id (stub_clock [1288834974658] 0) 0
         ((example_instance 0 (- 1))\<lparr>sequence_number := 1, last_timestamp := 1288834974657\<rparr>) =
       Some (Inr 4329472, example_instance 0 1288834974658, 1)"
    by code_simp
  note th = bit_field_round_trip [where clk = "stub_clock [1288834974658] 0",
      OF example_instance_constructed run]
  from th have "drop_bit 12 (4329472 :: int) AND 31 = 1
   \<and> drop_bit 17 (4329472 :: int) AND 31 = 1
   \<and> (4329472 :: int) AND 4095 = 0
   \<and> drop_bit 22 (4329472 :: int) + EPOCH_TIMESTAMP = 1288834974658"
    by (simp add: example_instance_def)
  with example_instance_constructed run show ?thesis by blast
qed

text \<open>
  Claim C8, amended.  When the timestamp \<open>t\<close> of a call satisfies
  \<open>EPOCH \<le> t < EPOCH + 2^41\<close>, the identifier lies in \<open>[0, 2^63)\<close>, so it is an unsigned
  64-bit value, and its timestamp field is \<open>t - EPOCH\<close>, in \<open>[0, 2^41)\<close>.  The call itself
  accepts every reading that is not below the last timestamp and checks no range.
\<close>

theorem identifier_range:
  assumes "SnowflakeIdGenerator dc wk = Inr g0"
    and "generate_id clk p (g0\<lparr>sequence_number := s, last_timestamp := t\<rparr>) = Some (Inr i, g', p')"
    and "EPOCH_TIMESTAMP \<le> last_timestamp g'"
    and "last_timestamp g' < EPOCH_TIMESTAMP + 2 ^ 41"
  shows "0 \<le> i \<and> i < 2 ^ 63
         \<and> drop_bit 22 i = last_timestamp g' - EPOCH_TIMESTAMP
         \<and> 0 \<le> drop_bit 22 i \<and> drop_bit 22 i < 2 ^ 41
         \<and> last_timestamp g' = clk (p' - 1)"
proof -
  note c = configured_constructed [OF assms(1), where s = s and t = t]
  note s = generate_id_success [OF c assms(2)]
  from s have c': "configured dc wk g'" and sq: "0 \<le> sequence_number g'" "sequence_number g' \<le> 4095"
    and i: "i = build_snowflake_id g' (last_timestamp g')" and e: "last_timestamp g' = clk (p' - 1)"
    by simp_all
  from c' have r: "0 \<le> dc" "dc \<le> 31" "0 \<le> wk" "wk \<le> 31" by (simp_all add: configured_def)
  define d where "d = last_timestamp g' - EPOCH_TIMESTAMP"
  have v: "i = d * 4194304 + dc * 131072 + wk * 4096 + sequence_number g'"
    by (simp add: i d_def build_snowflake_id_value [OF c' sq])
  have d: "0 \<le> d" "d < 2199023255552" using assms(3,4) by (simp_all add: d_def)
  have 1: "0 \<le> i" using v d r sq by simp
  have 2: "i < 2 ^ 63" using v d r sq by simp
  have 3: "drop_bit 22 i = d" using field_arith(4) [OF r sq v] by (simp add: drop_bit_eq_div)
  from 1 2 3 d e show ?thesis by (simp add: d_def)
qed

theorem identifier_range_witness:
  "SnowflakeIdGenerator 1 1 = Inr (example_instance 0 (- 1))
   \<and> generate_id (stub_clock [1288834974658] 0) 0
         ((example_instance 0 (- 1))\<lparr>sequence_number := 1, last_timestamp := 1288834974657\<rparr>) =
       Some (Inr 4329472, example_instance 0 1288834974658, 1)
   \<and> EPOCH_TIMESTAMP \<le> last_timestamp (example_instance 0 1288834974658)
   \<and> last_timestamp (example_instance 0 1288834974658) < EPOCH_TIMESTAMP + 2 ^ 41
   \<and> (0 :: int) \<le> 4329472 \<and> (4329472 :: int) < 2 ^ 63
   \<and> drop_bit 22 (4329472 :: int) = 1"
proof -
  have run: "generate_id (stub_clock [1288834974658] 0) 0
         ((example_instance 0 (- 1))\<lparr>sequence_number := 1, last_timestamp := 1288834974657\<rparr>) =
       Some (Inr 4329472, example_instance 0 1288834974658, 1)"
    by code_simp
  have lo: "EPOCH_TIMESTAMP \<le> last_timestamp (example_instance 0 1288834974658)"
    by (simp add: EPOCH_TIMESTAMP_def example_instance_def)
  have hi: "last_timestamp (example_instance 0 1288834974658) < EPOCH_TIMESTAMP + 2 ^ 41"
    by (simp add: EPOCH_TIMESTAMP_def example_instance_def)
  note th = identifier_range [where clk = "stub_clock [1288834974658] 0",
      OF example_instance_constructed run lo hi]
  from th have "(0 :: int) \<le> 4329472 \<and> (4329472 :: int) < 2 ^ 63 \<and> drop_bit 22 (4329472 :: int) = 1"
    by (simp add: example_instance_def EPOCH_TIMESTAMP_def)
  with example_instance_constructed run lo hi show ?thesis by blast
qed

text \<open>
  The claim as it was stated, for every reading that is accepted, fails: a new instance
  accepts the reading 0, which lies before the epoch, and returns a negative identifier;
  it accepts the reading \<open>EPOCH + 2^42\<close> and returns an identifier above \<open>2^64\<close>, whose
  timestamp field does not fit 41 bits.
\<close>

theorem identifier_range_counterexample:
  "SnowflakeIdGenerator 1 1 = Inr (example_instance 0 (- 1))
   \<and> generate_id (stub_clock [] 0) 0 (example_instance 0 (- 1)) =
       Some (Inr (- 5405765689543618560), example_instance 0 0, 1)
   \<and> \<not> (0 \<le> (- 5405765689543618560 :: int))
   \<and> drop_bit 22 (- 5405765689543618560 :: int) = - 1288834974657
   \<and> generate_id (stub_clock [] 5686881485761) 0 (example_instance 0 (- 1)) =
       Some (Inr 18446744073709686784, example_instance 0 5686881485761, 1)
   \<and> \<not> ((18446744073709686784 :: int) < 2 ^ 64)
   \<and> \<not> (drop_bit 22 (18446744073709686784 :: int) \<le> 2 ^ 41 - 1)"
proof -
  have 1: "generate_id (stub_clock [] 0) 0 (example_instance 0 (- 1)) =
       Some (Inr (- 5405765689543618560), example_instance 0 0, 1)"
    by code_simp
  have 2: "generate_id (stub_clock [] 5686881485761) 0 (example_instance 0 (- 1)) =
       Some (Inr 18446744073709686784, example_instance 0 5686881485761, 1)"
    by code_simp
  have 3: "drop_bit 22 (- 5405765689543618560 :: int) = - 1288834974657"
    by (simp add: drop_bit_eq_div)
  have 4: "\<not> (drop_bit 22 (18446744073709686784 :: int) \<le> 2 ^ 41 - 1)"
    by (simp add: drop_bit_eq_div)
  from example_instance_constructed 1 2 3 4 show ?thesis by simp
qed

subsection \<open>The module-level functions\<close>

lemma get_global_id_generator_set:
  "global_generator s = Some r \<Longrightarrow> get_global_id_generator dc wk s = (Inr r, s)"
  by (simp add: get_global_id_generator_def)

lemma get_global_calls_set:
  "global_generator s = Some r \<Longrightarrow>
     get_global_calls args s = (replicate (length args) (Inr r), s)"
proof (induction args)
  case Nil
  then show ?case by simp
next
  case (Cons a args)
  obtain dc wk where a: "a = (dc, wk)" by (cases a)
  from Cons show ?case by (simp add: a get_global_id_generator_set)
qed

lemma returned_refs_replicate: "set (returned_refs (replicate n (Inr r))) \<subseteq> {r}"
  by (induction n) simp_all

text \<open>
  Claim C9.  Start where the global variable holds no instance and make any series of
  calls of \<^verbatim>\<open>get_global_id_generator\<close>, with any arguments.  At most one instance is
  constructed, and every call that returns, returns a reference to that one instance.
  When the arguments of the first call are valid ids, that call constructs the instance
  from them, and every later call returns it and changes nothing, whatever its arguments
  are: they are not even validated.  (A call that raises, on invalid ids while there is no
  instance, constructs nothing and leaves the variable empty.)
\<close>

theorem global_generator_singleton:
  assumes "global_generator s = None" and "get_global_calls args s = (rs, s')"
  shows "length (heap s') \<le> length (heap s) + 1
       \<and> (\<forall>r\<in>set (returned_refs rs). r = length (heap s))
       \<and> (\<forall>dc wk rest g. args = (dc, wk) # rest \<and> SnowflakeIdGenerator dc wk = Inr g \<longrightarrow>
            rs = replicate (length args) (Inr (length (heap s)))
            \<and> s' = s\<lparr>heap := heap s @ [g], global_generator := Some (length (heap s))\<rparr>)"
  using assms
proof (induction args arbitrary: rs)
  case Nil
  then show ?case by simp
next
  case (Cons a args)
  obtain dc wk where a: "a = (dc, wk)" by (cases a)
  show ?case
  proof (cases "SnowflakeIdGenerator dc wk")
    case (Inl e)
    with Cons.prems(1) have first: "get_global_id_generator dc wk s = (Inl e, s)"
      by (simp add: get_global_id_generator_def)
    obtain rs' where rest: "get_global_calls args s = (rs', s')" and rs: "rs = Inl e # rs'"
      using Cons.prems(2) by (auto simp: a first split: prod.splits)
    note ih = Cons.IH [OF Cons.prems(1) rest]
    from ih have 1: "length (heap s') \<le> length (heap s) + 1" by blast
    from ih rs have 2: "\<forall>r\<in>set (returned_refs rs). r = length (heap s)" by simp
    have 3: "\<forall>dc' wk' rest g. a # args = (dc', wk') # rest \<and> SnowflakeIdGenerator dc' wk' = Inr g \<longrightarrow>
            rs = replicate (length (a # args)) (Inr (length (heap s)))
            \<and> s' = s\<lparr>heap := heap s @ [g], global_generator := Some (length (heap s))\<rparr>"
      using Inl by (simp add: a)
    from 1 2 3 show ?thesis by (intro conjI)
  next
    case (Inr g)
    let ?s1 = "s\<lparr>heap := heap s @ [g], global_generator := Some (length (heap s))\<rparr>"
    from Inr Cons.prems(1) have first: "get_global_id_generator dc wk s = (Inr (length (heap s)), ?s1)"
      by (simp add: get_global_id_generator_def)
    have "get_global_calls args ?s1 = (replicate (length args) (Inr (length (heap s))), ?s1)"
      by (rule get_global_calls_set) simp
    with Cons.prems(2) have rs: "rs = replicate (Suc (length args)) (Inr (length (heap s)))"
      and s': "s' = ?s1"
      by (simp_all add: a first)
    from returned_refs_replicate [of "Suc (length args)" "length (heap s)"] rs
    have 2: "\<forall>r\<in>set (returned_refs rs). r = length (heap s)" by blast
    have 1: "length (heap s') \<le> length (heap s) + 1" by (simp add: s')
    have 3: "\<forall>dc' wk' rest g. a # args = (dc', wk') # rest \<and> SnowflakeIdGenerator dc' wk' = Inr g \<longrightarrow>
            rs = replicate (length (a # args)) (Inr (length (heap s)))
            \<and> s' = s\<lparr>heap := heap s @ [g], global_generator := Some (length (heap s))\<rparr>"
      using Inr rs s' by (simp add: a)
    from 1 2 3 show ?thesis by (intro conjI)
  qed
qed

theorem global_generator_singleton_witness:
  "global_generator initial_process = None
   \<and> SnowflakeIdGenerator 1 1 = Inr (example_instance 0 (- 1))
   \<and> get_global_calls [(1, 1), (5, 7), (99, 99)] initial_process =
       ([Inr 0, Inr 0, Inr 0],
        \<lparr>heap = [example_instance 0 (- 1)], global_generator = Some 0, ticks = 0\<rparr>)
   \<and> get_global_calls [(32, 1), (1, 1), (5, 7)] initial_process =
       ([Inl DatacenterIdOutOfRange, Inr 0, Inr 0],
        \<lparr>heap = [example_instance 0 (- 1)], global_generator = Some 0, ticks = 0\<rparr>)
   \<and> returned_refs [Inl DatacenterIdOutOfRange, Inr 0, Inr 0] =
       [length (heap initial_process), length (heap initial_process)]"
proof -
  have none: "global_generator initial_process = None"
    by (simp add: initial_process_def)
  have run: "get_global_calls [(1, 1), (5, 7), (99, 99)] initial_process =
       (fst (get_global_calls [(1, 1), (5, 7), (99, 99)] initial_process),
        snd (get_global_calls [(1, 1), (5, 7), (99, 99)] initial_process))"
    by simp
  note th = global_generator_singleton [OF none run]
  from th example_instance_constructed
  have "fst (get_global_calls [(1, 1), (5, 7), (99, 99)] initial_process) =
          replicate (length [(1 :: int, 1 :: int), (5, 7), (99, 99)]) (Inr (length (heap initial_process)))
        \<and> snd (get_global_calls [(1, 1), (5, 7), (99, 99)] initial_process) =
          initial_process\<lparr>heap := heap initial_process @ [example_instance 0 (- 1)],
            global_generator := Some (length (heap initial_process))\<rparr>"
    by blast
  then have 1: "get_global_calls [(1, 1), (5, 7), (99, 99)] initial_process =
       ([Inr 0, Inr 0, Inr 0],
        \<lparr>heap = [example_instance 0 (- 1)], global_generator = Some 0, ticks = 0\<rparr>)"
    by (simp add: initial_process_def prod_eq_iff)
  have 2: "get_global_calls [(32, 1), (1, 1), (5, 7)] initial_process =
       ([Inl DatacenterIdOutOfRange, Inr 0, Inr 0],
        \<lparr>heap = [example_instance 0 (- 1)], global_generator = Some 0, ticks = 0\<rparr>)"
    by code_simp
  from global_generator_singleton [OF none 2]
  have "\<forall>r\<in>set (returned_refs [Inl DatacenterIdOutOfRange, Inr 0, Inr 0]).
             r = length (heap initial_process)"
    by (rule conjunct2 [THEN conjunct1])
  then have 3: "returned_refs [Inl DatacenterIdOutOfRange, Inr 0, Inr 0] =
       [length (heap initial_process), length (heap initial_process)]"
    by simp
  from none example_instance_constructed 1 2 3 show ?thesis by (intro conjI)
qed

lemma generate_id_fresh:
  assumes "SnowflakeIdGenerator dc wk = Inr g0" and "- 1 < clk p"
  shows "generate_id clk p g0 =
           Some (Inr ((clk p - EPOCH_TIMESTAMP) * 4194304 + dc * 131072 + wk * 4096),
                 g0\<lparr>sequence_number := 0, last_timestamp := clk p\<rparr>, Suc p)"
proof -
  from assms(1) have l: "last_timestamp g0 = - 1" by (simp add: SnowflakeIdGenerator_Inr)
  note c = configured_constructed [OF assms(1), where s = 0 and t = "clk p"]
  have "build_snowflake_id (g0\<lparr>sequence_number := 0, last_timestamp := clk p\<rparr>) (clk p)
          = (clk p - EPOCH_TIMESTAMP) * 4194304 + dc * 131072 + wk * 4096"
    using build_snowflake_id_value [OF c, of "clk p"] by simp
  with generate_id_new_millisecond [where clk = clk and p = p and g = g0] assms(2) l
  show ?thesis by simp
qed

text \<open>
  Claim C10.  \<^verbatim>\<open>create_unique_id_with_prefix\<close> generates from the instance that the
  constructor has just made, not from an instance of the store: when that call of
  \<^verbatim>\<open>generate_id\<close> returns \<open>i\<close>, the function returns the prefix followed by the decimal
  digits of \<open>i\<close>, adds the new instance to the store and leaves the global variable and
  the other instances alone.  With a reading after -1 the new instance always starts the
  millisecond, so \<open>i\<close> has the sequence number 0 and depends on the reading and the two ids
  only.  Hence two calls that read the same millisecond return the same string: the
  uniqueness of one instance does not carry over to separate calls of this function.
\<close>

theorem create_unique_id_with_prefix_fresh:
  assumes "SnowflakeIdGenerator dc wk = Inr g0"
  shows "(\<forall>i g' p'. generate_id clk (ticks s) g0 = Some (Inr i, g', p') \<longrightarrow>
            create_unique_id_with_prefix prefix dc wk clk s =
              Some (Inr (prefix @ str i), s\<lparr>heap := heap s @ [g'], ticks := p'\<rparr>))
       \<and> (- 1 < clk (ticks s) \<longrightarrow>
            create_unique_id_with_prefix prefix dc wk clk s =
              Some (Inr (prefix @
                      str ((clk (ticks s) - EPOCH_TIMESTAMP) * 4194304 + dc * 131072 + wk * 4096)),
                    s\<lparr>heap := heap s @ [g0\<lparr>sequence_number := 0, last_timestamp := clk (ticks s)\<rparr>],
                      ticks := Suc (ticks s)\<rparr>))
       \<and> (- 1 < clk (ticks s) \<and> clk (Suc (ticks s)) = clk (ticks s) \<longrightarrow>
            (\<exists>x s1 s2. create_unique_id_with_prefix prefix dc wk clk s = Some (Inr x, s1)
                     \<and> create_unique_id_with_prefix prefix dc wk clk s1 = Some (Inr x, s2)))"
proof -
  have 1: "create_unique_id_with_prefix prefix dc wk clk s =
              Some (Inr (prefix @ str i), s\<lparr>heap := heap s @ [g'], ticks := p'\<rparr>)"
    if "generate_id clk (ticks s) g0 = Some (Inr i, g', p')" for i g' p' s
    using that assms by (simp add: create_unique_id_with_prefix_def)
  have 2: "create_unique_id_with_prefix prefix dc wk clk s =
              Some (Inr (prefix @
                      str ((clk (ticks s) - EPOCH_TIMESTAMP) * 4194304 + dc * 131072 + wk * 4096)),
                    s\<lparr>heap := heap s @ [g0\<lparr>sequence_number := 0, last_timestamp := clk (ticks s)\<rparr>],
                      ticks := Suc (ticks s)\<rparr>)"
    if "- 1 < clk (ticks s)" for s
    using 1 [OF generate_id_fresh [where clk = clk and p = "ticks s", OF assms that]] .
  have 3: "\<exists>x s1 s2. create_unique_id_with_prefix prefix dc wk clk s = Some (Inr x, s1)
                     \<and> create_unique_id_with_prefix prefix dc wk clk s1 = Some (Inr x, s2)"
    if a: "- 1 < clk (ticks s)" and b: "clk (Suc (ticks s)) = clk (ticks s)"
  proof -
    let ?s1 = "s\<lparr>heap := heap s @ [g0\<lparr>sequence_number := 0, last_timestamp := clk (ticks s)\<rparr>],
                      ticks := Suc (ticks s)\<rparr>"
    let ?x = "prefix @ str ((clk (ticks s) - EPOCH_TIMESTAMP) * 4194304 + dc * 131072 + wk * 4096)"
    have "- 1 < clk (ticks ?s1)" using a b by simp
    from 2 [OF this] b
    have second: "create_unique_id_with_prefix prefix dc wk clk ?s1 =
        Some (Inr ?x, ?s1\<lparr>heap := heap ?s1 @ [g0\<lparr>sequence_number := 0, last_timestamp := clk (ticks ?s1)\<rparr>],
                      ticks := Suc (ticks ?s1)\<rparr>)"
      by simp
    from 2 [OF a] second show ?thesis by blast
  qed
  have c1: "\<forall>i g' p'. generate_id clk (ticks s) g0 = Some (Inr i, g', p') \<longrightarrow>
            create_unique_id_with_prefix prefix dc wk clk s =
              Some (Inr (prefix @ str i), s\<lparr>heap := heap s @ [g'], ticks := p'\<rparr>)"
    using 1 by blast
  have c2: "- 1 < clk (ticks s) \<longrightarrow>
            create_unique_id_with_prefix prefix dc wk clk s =
              Some (Inr (prefix @
                      str ((clk (ticks s) - EPOCH_TIMESTAMP) * 4194304 + dc * 131072 + wk * 4096)),
                    s\<lparr>heap := heap s @ [g0\<lparr>sequence_number := 0, last_timestamp := clk (ticks s)\<rparr>],
                      ticks := Suc (ticks s)\<rparr>)"
    using 2 by blast
  have c3: "- 1 < clk (ticks s) \<and> clk (Suc (ticks s)) = clk (ticks s) \<longrightarrow>
            (\<exists>x s1 s2. create_unique_id_with_prefix prefix dc wk clk s = Some (Inr x, s1)
                     \<and> create_unique_id_with_prefix prefix dc wk clk s1 = Some (Inr x, s2))"
    using 3 by blast
  from c1 c2 c3 show ?thesis by (intro conjI)
qed

theorem create_unique_id_with_prefix_fresh_witness:
  "SnowflakeIdGenerator 1 1 = Inr (example_instance 0 (- 1))
   \<and> - 1 < stub_clock [] 1288834974657
             (ticks \<lparr>heap = [example_instance 5 1288834974657], global_generator = Some 0, ticks = 7\<rparr>)
   \<and> create_unique_id_with_prefix ''USER_'' 1 1 (stub_clock [] 1288834974657)
         \<lparr>heap = [example_instance 5 1288834974657], global_generator = Some 0, ticks = 7\<rparr> =
       Some (Inr ''USER_135168'',
             \<lparr>heap = [example_instance 5 1288834974657, example_instance 0 1288834974657],
              global_generator = Some 0, ticks = 8\<rparr>)
   \<and> create_unique_id_with_prefix ''USER_'' 1 1 (stub_clock [] 1288834974657)
         \<lparr>heap = [example_instance 5 1288834974657, example_instance 0 1288834974657],
          global_generator = Some 0, ticks = 8\<rparr> =
       Some (Inr ''USER_135168'',
             \<lparr>heap = [example_instance 5 1288834974657, example_instance 0 1288834974657,
                      example_instance 0 1288834974657],
              global_generator = Some 0, ticks = 9\<rparr>)"
proof -
  let ?clk = "stub_clock [] 1288834974657"
  let ?s = "\<lparr>heap = [example_instance 5 1288834974657], global_generator = Some 0, ticks = 7\<rparr>"
  have later: "- 1 < ?clk (ticks ?s)" by (simp add: stub_clock_def)
  note th = create_unique_id_with_prefix_fresh [OF example_instance_constructed,
      where clk = ?clk and s = ?s and prefix = "''USER_''"]
  from th [THEN conjunct2, THEN conjunct1, rule_format, OF later]
  have "create_unique_id_with_prefix ''USER_'' 1 1 ?clk ?s =
          Some (Inr (''USER_'' @
                  str ((?clk (ticks ?s) - EPOCH_TIMESTAMP) * 4194304 + 1 * 131072 + 1 * 4096)),
                ?s\<lparr>heap := heap ?s @ [(example_instance 0 (- 1))
                        \<lparr>sequence_number := 0, last_timestamp := ?clk (ticks ?s)\<rparr>],
                   ticks := Suc (ticks ?s)\<rparr>)"
    by simp
  moreover have "str ((?clk (ticks ?s) - EPOCH_TIMESTAMP) * 4194304 + 1 * 131072 + 1 * 4096)
                   = ''135168''"
    by (simp add: stub_clock_def EPOCH_TIMESTAMP_def str_def decimal.simps digit_char_def)
  ultimately have 1: "create_unique_id_with_prefix ''USER_'' 1 1 ?clk ?s =
       Some (Inr ''USER_135168'',
             \<lparr>heap = [example_instance 5 1288834974657, example_instance 0 1288834974657],
              global_generator = Some 0, ticks = 8\<rparr>)"
    by (simp add: example_instance_def stub_clock_def)
  have again: "generate_id ?clk 8 (example_instance 0 (- 1)) =
                 Some (Inr 135168, example_instance 0 1288834974657, 9)"
    by code_simp
  have 2: "create_unique_id_with_prefix ''USER_'' 1 1 ?clk
         \<lparr>heap = [example_instance 5 1288834974657, example_instance 0 1288834974657],
          global_generator = Some 0, ticks = 8\<rparr> =
       Some (Inr ''USER_135168'',
             \<lparr>heap = [example_instance 5 1288834974657, example_instance 0 1288834974657,
                      example_instance 0 1288834974657],
              global_generator = Some 0, ticks = 9\<rparr>)"
    by (simp add: create_unique_id_with_prefix_def example_instance_constructed again
        str_def decimal.simps digit_char_def)
  from example_instance_constructed later 1 2 show ?thesis by (intro conjI)
qed

end
